theory Spec2Isabelle
  imports Complex_Main "HOL-Library.Product_Lexorder"
begin

section \<open>HAR analyzer: values, records and outcomes\<close>

text \<open>
  The program is \<^verbatim>\<open>src/har_analyzer.py\<close>. Numbers are read as the reals they denote:
  a Python \<^verbatim>\<open>float\<close> is a \<^typ>\<open>real\<close>, so rounding is not part of this model, and the
  non-finite floats have no counterpart here. Python's unbounded \<^verbatim>\<open>int\<close> is \<^typ>\<open>int\<close>.
\<close>

datatype py_error = AttributeError | TypeError | KeyError | ValueError | StatisticsError | OSError

text \<open>
  The values the program handles: what \<^verbatim>\<open>json.load\<close> returns, and the dicts the
  program builds itself. A dict is an association list in insertion order. Its keys
  are strings, or integers in the one dict the program keys by status code.
\<close>

datatype pykey = KStr string | KInt int

datatype py =
    PNone
  | PBool bool
  | PInt int
  | PFloat real
  | PStr string
  | PList "py list"
  | PDict "(pykey \<times> py) list"

text \<open>
  What a piece of the program can do: return a value, print lines and leave through
  \<^verbatim>\<open>sys.exit\<close>, or raise an exception that nothing catches. \<open>IllTyped\<close> is the one
  place where this model stops: the extracted records hold a value whose type is not the
  one the dataclass \<^verbatim>\<open>TimingInfo\<close> declares for its field. Python goes on with such
  records; the reporting functions are modelled for records of the declared types.
\<close>

datatype 'a outcome = Return 'a | SysExit "string list" nat | Raise py_error | IllTyped

fun bind :: "'a outcome \<Rightarrow> ('a \<Rightarrow> 'b outcome) \<Rightarrow> 'b outcome" where
  "bind (Return x) f = f x"
| "bind (SysExit out c) f = SysExit out c"
| "bind (Raise e) f = Raise e"
| "bind IllTyped f = IllTyped"

text \<open>
  The dataclass \<^verbatim>\<open>TimingInfo\<close>. Python does not check the annotations, so the record
  is used at two types: as the constructor leaves it, every field holding the value that
  was passed (\<open>raw_timing\<close>), and as declared (\<open>timing_info\<close>). The field
  \<^verbatim>\<open>method\<close> is \<open>http_method\<close> here.
\<close>

record ('s, 'i, 'f) TimingInfo =
  url :: 's
  http_method :: 's
  status :: 'i
  total_time :: 'f
  blocked :: 'f
  dns :: 'f
  connect :: 'f
  send :: 'f
  wait :: 'f
  receive :: 'f
  ssl :: 'f

type_synonym raw_timing = "(py, py, py) TimingInfo"
type_synonym timing_info = "(string, int, real) TimingInfo"

section \<open>Dictionaries\<close>

text \<open>
  A Python \<^verbatim>\<open>dict\<close> keeps its keys in insertion order; it is an association list
  with distinct keys. \<open>dict_set\<close> is \<^verbatim>\<open>d[k] = v\<close>: a key already there keeps its
  place, a new one goes to the end. \<open>dict_get\<close> is \<^verbatim>\<open>d.get(k, default)\<close>.
\<close>

fun dict_set :: "'k \<Rightarrow> 'v \<Rightarrow> ('k \<times> 'v) list \<Rightarrow> ('k \<times> 'v) list" where
  "dict_set k v [] = [(k, v)]"
| "dict_set k v ((k', v') # d) = (if k' = k then (k', v) # d else (k', v') # dict_set k v d)"

definition dict_get :: "('k \<times> 'v) list \<Rightarrow> 'k \<Rightarrow> 'v \<Rightarrow> 'v" where
  "dict_get d k dflt = (case map_of d k of None \<Rightarrow> dflt | Some v \<Rightarrow> v)"

text \<open>\<^verbatim>\<open>dict(items)\<close>: the pairs are stored one after the other.\<close>

definition dict_of_items :: "('k \<times> 'v) list \<Rightarrow> ('k \<times> 'v) list" where
  "dict_of_items items = fold (\<lambda>(k, v) d. dict_set k v d) items []"

section \<open>The functions of the \<^verbatim>\<open>statistics\<close> module that the program calls\<close>

text \<open>
  \<^verbatim>\<open>mean\<close>, \<^verbatim>\<open>median\<close> and \<^verbatim>\<open>stdev\<close> follow \<^verbatim>\<open>statistics.py\<close> of Python 3.11, with
  its exact fractions read as reals. \<^verbatim>\<open>stdev\<close> takes the sum of squared deviations
  from \<^verbatim>\<open>_ss\<close>, which computes it as \<^verbatim>\<open>(count * sxx - sx * sx) / count\<close>.
\<close>

definition mean :: "real list \<Rightarrow> real outcome" where
  "mean data =
     (let n = length data
      in if n < 1 then Raise StatisticsError else Return (sum_list data / real n))"

definition median :: "real list \<Rightarrow> real outcome" where
  "median data0 =
     (let data = sort data0; n = length data
      in if n = 0 then Raise StatisticsError
         else if n mod 2 = 1 then Return (data ! (n div 2))
         else (let i = n div 2 in Return ((data ! (i - 1) + data ! i) / 2)))"

definition ss :: "real list \<Rightarrow> real \<times> nat" where
  "ss data =
     (let count = length data;
          sx = sum_list data;
          sxx = sum_list (map (\<lambda>x. x * x) data)
      in if count = 0 then (0, count)
         else ((real count * sxx - sx * sx) / real count, count))"

definition stdev :: "real list \<Rightarrow> real outcome" where
  "stdev data =
     (case ss data of (ssd, n) \<Rightarrow>
        if n < 2 then Raise StatisticsError
        else Return (sqrt (ssd / real (n - 1))))"

text \<open>The builtins \<^verbatim>\<open>min\<close> and \<^verbatim>\<open>max\<close> of a list raise \<^verbatim>\<open>ValueError\<close> on an empty one.\<close>

fun py_min :: "real list \<Rightarrow> real outcome" where
  "py_min [] = Raise ValueError"
| "py_min (x # xs) = Return (fold (\<lambda>y m. if y < m then y else m) xs x)"

fun py_max :: "real list \<Rightarrow> real outcome" where
  "py_max [] = Raise ValueError"
| "py_max (x # xs) = Return (fold (\<lambda>y m. if y > m then y else m) xs x)"

section \<open>The statistics engine\<close>

record StatBlock =
  stat_count :: nat
  stat_total :: real
  stat_average :: real
  stat_median :: real
  stat_min :: real
  stat_max :: real
  stat_std_dev :: real

definition zero_block :: StatBlock where
  "zero_block = \<lparr>stat_count = 0, stat_total = 0, stat_average = 0, stat_median = 0,
     stat_min = 0, stat_max = 0, stat_std_dev = 0\<rparr>"

text \<open>\<^verbatim>\<open>timing_phases\<close>, each name with the attribute \<^verbatim>\<open>getattr\<close> reads for it.\<close>

definition timing_phases :: "(string \<times> (timing_info \<Rightarrow> real)) list" where
  "timing_phases =
     [(''total_time'', total_time), (''blocked'', blocked), (''dns'', dns),
      (''connect'', connect), (''send'', send), (''wait'', wait),
      (''receive'', receive), (''ssl'', ssl)]"

text \<open>The list comprehension of line 96.\<close>

definition phase_values :: "(timing_info \<Rightarrow> real) \<Rightarrow> timing_info list \<Rightarrow> real list" where
  "phase_values f entries = map f (filter (\<lambda>entry. f entry > 0) entries)"

text \<open>Lines 98 to 117: the block stored for one phase.\<close>

definition phase_block :: "real list \<Rightarrow> StatBlock outcome" where
  "phase_block vals =
     (if vals \<noteq> [] then
        bind (mean vals) (\<lambda>avg.
        bind (median vals) (\<lambda>med.
        bind (py_min vals) (\<lambda>mn.
        bind (py_max vals) (\<lambda>mx.
        bind (if length vals > 1 then stdev vals else Return 0) (\<lambda>sd.
        Return \<lparr>stat_count = length vals, stat_total = sum_list vals, stat_average = avg,
          stat_median = med, stat_min = mn, stat_max = mx, stat_std_dev = sd\<rparr>)))))
      else Return zero_block)"

text \<open>The loop of line 95 over the phases still to do, \<open>stats\<close> being the dict so far.\<close>

fun stats_loop :: "(string \<times> (timing_info \<Rightarrow> real)) list \<Rightarrow> timing_info list \<Rightarrow>
    (string \<times> StatBlock) list \<Rightarrow> (string \<times> StatBlock) list outcome" where
  "stats_loop [] entries stats = Return stats"
| "stats_loop ((phase, f) # phases) entries stats =
     bind (phase_block (phase_values f entries))
       (\<lambda>b. stats_loop phases entries (dict_set phase b stats))"

definition calculate_statistics :: "timing_info list \<Rightarrow> (string \<times> StatBlock) list outcome" where
  "calculate_statistics entries =
     (if entries = [] then Return [] else stats_loop timing_phases entries [])"

section \<open>Ranking and grouping\<close>

text \<open>
  \<^verbatim>\<open>sorted(xs, key=k, reverse=True)\<close>: CPython's \<^verbatim>\<open>list.sort\<close> reverses the list, sorts it
  stably in ascending order of the keys and reverses the result, so that equal keys
  keep their order.
\<close>

definition sorted_reverse :: "('a \<Rightarrow> real) \<Rightarrow> 'a list \<Rightarrow> 'a list" where
  "sorted_reverse k xs = rev (sort_key k (rev xs))"

text \<open>The slice \<^verbatim>\<open>xs[:n]\<close>; a negative \<open>n\<close> counts from the end.\<close>

definition slice_to :: "int \<Rightarrow> 'a list \<Rightarrow> 'a list" where
  "slice_to n xs = (if n \<ge> 0 then take (nat n) xs else take (length xs - nat (- n)) xs)"

definition get_slowest_requests :: "int \<Rightarrow> timing_info list \<Rightarrow> timing_info list" where
  "get_slowest_requests n entries = slice_to n (sorted_reverse total_time entries)"

fun count_loop :: "timing_info list \<Rightarrow> (int \<times> nat) list \<Rightarrow> (int \<times> nat) list" where
  "count_loop [] status_counts = status_counts"
| "count_loop (entry # entries) status_counts =
     count_loop entries
       (dict_set (status entry) (dict_get status_counts (status entry) 0 + 1) status_counts)"

text \<open>
  \<^verbatim>\<open>sorted(status_counts.items())\<close> compares the pairs as tuples, which is the
  lexicographic order on pairs.
\<close>

definition get_requests_by_status :: "timing_info list \<Rightarrow> (int \<times> nat) list" where
  "get_requests_by_status entries = dict_of_items (sort (count_loop entries []))"

section \<open>Operations on parsed JSON\<close>

text \<open>\<^verbatim>\<open>obj.get(key, default)\<close>: only a dict has the method.\<close>

fun py_get :: "py \<Rightarrow> string \<Rightarrow> py \<Rightarrow> py outcome" where
  "py_get (PDict d) key dflt = Return (dict_get d (KStr key) dflt)"
| "py_get obj key dflt = Raise AttributeError"

fun is_substring :: "string \<Rightarrow> string \<Rightarrow> bool" where
  "is_substring k [] = (k = [])"
| "is_substring k (c # s) = (take (length k) (c # s) = k \<or> is_substring k s)"

text \<open>
  \<^verbatim>\<open>key in obj\<close> for a string \<open>key\<close>: a key of a dict, an element of a list, a
  substring of a string; the other values are not containers.
\<close>

fun py_contains :: "string \<Rightarrow> py \<Rightarrow> bool outcome" where
  "py_contains key (PDict d) = Return (KStr key \<in> set (map fst d))"
| "py_contains key (PList xs) = Return (PStr key \<in> set xs)"
| "py_contains key (PStr s) = Return (is_substring key s)"
| "py_contains key obj = Raise TypeError"

text \<open>\<^verbatim>\<open>obj[key]\<close> for a string \<open>key\<close>.\<close>

fun py_getitem :: "py \<Rightarrow> string \<Rightarrow> py outcome" where
  "py_getitem (PDict d) key =
     (case map_of d (KStr key) of Some v \<Rightarrow> Return v | None \<Rightarrow> Raise KeyError)"
| "py_getitem obj key = Raise TypeError"

fun key_value :: "pykey \<Rightarrow> py" where
  "key_value (KStr s) = PStr s"
| "key_value (KInt i) = PInt i"

text \<open>
  The values a \<^verbatim>\<open>for\<close> loop draws from \<open>obj\<close>: the elements of a list, the keys of a
  dict, the characters of a string (here one per byte; each of them is a string, and the
  loop body of the extractor fails on the first one whatever it is).
\<close>

fun py_iter :: "py \<Rightarrow> py list outcome" where
  "py_iter (PList xs) = Return xs"
| "py_iter (PDict d) = Return (map (\<lambda>kv. key_value (fst kv)) d)"
| "py_iter (PStr s) = Return (map (\<lambda>c. PStr [c]) s)"
| "py_iter obj = Raise TypeError"

text \<open>\<^verbatim>\<open>max(0, value)\<close> is \<open>value\<close> if \<^verbatim>\<open>value > 0\<close> and \<open>0\<close> otherwise.\<close>

fun py_max0 :: "py \<Rightarrow> py outcome" where
  "py_max0 (PInt i) = Return (if i > 0 then PInt i else PInt 0)"
| "py_max0 (PFloat x) = Return (if x > 0 then PFloat x else PInt 0)"
| "py_max0 (PBool b) = Return (if b then PBool b else PInt 0)"
| "py_max0 v = Raise TypeError"

section \<open>The loader\<close>

text \<open>
  The world outside the program: \<open>path_str\<close> is \<^verbatim>\<open>str(Path(s))\<close>, and \<open>open_json\<close>
  tells what opening the file at a path and running \<^verbatim>\<open>json.load\<close> on it gives: no
  such file, another exception, text that is not JSON (with the parser's message), or
  the parsed document. \<open>writable\<close> tells whether a path can be opened for writing.
\<close>

datatype file_result = NotFound | Unreadable py_error | Malformed string | Parsed py

record env =
  path_str :: "string \<Rightarrow> string"
  open_json :: "string \<Rightarrow> file_result"
  writable :: "string \<Rightarrow> bool"

record HARAnalyzer =
  har_file_path :: string
  entries :: "raw_timing list"

definition init :: "env \<Rightarrow> string \<Rightarrow> HARAnalyzer" where
  "init e file = \<lparr>har_file_path = path_str e file, entries = []\<rparr>"

definition load_har :: "env \<Rightarrow> HARAnalyzer \<Rightarrow> py outcome" where
  "load_har e self =
     (case open_json e (har_file_path self) of
        Parsed har_data \<Rightarrow> Return har_data
      | NotFound \<Rightarrow>
          SysExit [''Error: File '' @ [CHR 0x27] @ har_file_path self @ [CHR 0x27] @ '' not found.''] 1
      | Malformed msg \<Rightarrow> SysExit [''Error: Invalid JSON in HAR file: '' @ msg] 1
      | Unreadable x \<Rightarrow> Raise x)"

section \<open>The extractor\<close>

definition get_timing :: "py \<Rightarrow> string \<Rightarrow> py outcome" where
  "get_timing timings key = bind (py_get timings key (PInt 0)) py_max0"

text \<open>The body of the loop, lines 62 to 83: the record built from one entry.\<close>

definition timing_info_of :: "py \<Rightarrow> raw_timing outcome" where
  "timing_info_of entry =
     bind (py_get entry ''request'' (PDict [])) (\<lambda>request.
     bind (py_get entry ''response'' (PDict [])) (\<lambda>response.
     bind (py_get entry ''timings'' (PDict [])) (\<lambda>timings.
     bind (py_get request ''url'' (PStr ''unknown'')) (\<lambda>u.
     bind (py_get request ''method'' (PStr ''unknown'')) (\<lambda>m.
     bind (py_get response ''status'' (PInt 0)) (\<lambda>s.
     bind (py_get entry ''time'' (PInt 0)) (\<lambda>t.
     bind (get_timing timings ''blocked'') (\<lambda>v1.
     bind (get_timing timings ''dns'') (\<lambda>v2.
     bind (get_timing timings ''connect'') (\<lambda>v3.
     bind (get_timing timings ''send'') (\<lambda>v4.
     bind (get_timing timings ''wait'') (\<lambda>v5.
     bind (get_timing timings ''receive'') (\<lambda>v6.
     bind (get_timing timings ''ssl'') (\<lambda>v7.
     Return \<lparr>url = u, http_method = m, status = s, total_time = t, blocked = v1, dns = v2,
       connect = v3, send = v4, wait = v5, receive = v6, ssl = v7\<rparr>))))))))))))))"

fun extract_loop :: "py list \<Rightarrow> HARAnalyzer \<Rightarrow> HARAnalyzer outcome" where
  "extract_loop [] self = Return self"
| "extract_loop (entry # rest) self =
     bind (timing_info_of entry)
       (\<lambda>timing_info. extract_loop rest (self\<lparr>entries := entries self @ [timing_info]\<rparr>))"

definition extract_timings :: "env \<Rightarrow> HARAnalyzer \<Rightarrow> HARAnalyzer outcome" where
  "extract_timings e self =
     bind (load_har e self) (\<lambda>har_data.
     bind (py_contains ''log'' har_data) (\<lambda>has_log.
     bind (if \<not> has_log then Return True
           else bind (py_getitem har_data ''log'') (\<lambda>log.
                bind (py_contains ''entries'' log) (\<lambda>has_entries.
                Return (\<not> has_entries)))) (\<lambda>invalid.
     if invalid then SysExit [''Error: Invalid HAR file format''] 1
     else bind (py_getitem har_data ''log'') (\<lambda>log.
          bind (py_getitem log ''entries'') (\<lambda>es.
          bind (py_iter es) (\<lambda>es. extract_loop es self))))))"

section \<open>Records of the declared types\<close>

fun as_str :: "py \<Rightarrow> string option" where
  "as_str (PStr s) = Some s"
| "as_str v = None"

fun as_int :: "py \<Rightarrow> int option" where
  "as_int (PInt i) = Some i"
| "as_int v = None"

fun as_float :: "py \<Rightarrow> real option" where
  "as_float (PInt i) = Some (real_of_int i)"
| "as_float (PFloat x) = Some x"
| "as_float v = None"

definition typed :: "raw_timing \<Rightarrow> timing_info option" where
  "typed r =
     Option.bind (as_str (url r)) (\<lambda>u.
     Option.bind (as_str (http_method r)) (\<lambda>m.
     Option.bind (as_int (status r)) (\<lambda>s.
     Option.bind (as_float (total_time r)) (\<lambda>t.
     Option.bind (as_float (blocked r)) (\<lambda>v1.
     Option.bind (as_float (dns r)) (\<lambda>v2.
     Option.bind (as_float (connect r)) (\<lambda>v3.
     Option.bind (as_float (send r)) (\<lambda>v4.
     Option.bind (as_float (wait r)) (\<lambda>v5.
     Option.bind (as_float (receive r)) (\<lambda>v6.
     Option.bind (as_float (ssl r)) (\<lambda>v7.
     Some \<lparr>url = u, http_method = m, status = s, total_time = t, blocked = v1, dns = v2,
       connect = v3, send = v4, wait = v5, receive = v6, ssl = v7\<rparr>)))))))))))"

section \<open>Reporting and export\<close>

text \<open>
  What \<^verbatim>\<open>print_summary\<close> prints, as data: the header's file and count, the status
  lines, one table row for each display name whose phase is in the statistics, and the
  ranked list with the URL cut to 60 characters. How numbers are formatted is left out.
\<close>

definition phase_names :: "(string \<times> string) list" where
  "phase_names =
     [(''total_time'', ''Total Time''), (''blocked'', ''Blocked''), (''dns'', ''DNS Lookup''),
      (''connect'', ''TCP Connect''), (''send'', ''Send Request''), (''wait'', ''Wait (TTFB)''),
      (''receive'', ''Download''), (''ssl'', ''SSL/TLS'')]"

definition display_url :: "string \<Rightarrow> string" where
  "display_url u = (if length u \<le> 60 then u else take 57 u @ ''...'')"

record report =
  rep_file :: string
  rep_total_requests :: nat
  rep_status :: "(int \<times> nat) list"
  rep_table :: "(string \<times> StatBlock) list"
  rep_slowest :: "(nat \<times> int \<times> real \<times> string \<times> string) list"

definition print_summary :: "string \<Rightarrow> timing_info list \<Rightarrow> report outcome" where
  "print_summary file es =
     (let status_counts = get_requests_by_status es
      in bind (calculate_statistics es) (\<lambda>stats.
         let slowest = get_slowest_requests 10 es
         in Return \<lparr>rep_file = file, rep_total_requests = length es,
              rep_status = status_counts,
              rep_table = concat (map (\<lambda>(phase, name).
                  case map_of stats phase of Some b \<Rightarrow> [(name, b)] | None \<Rightarrow> []) phase_names),
              rep_slowest = map (\<lambda>(i, entry).
                  (i, status entry, total_time entry, http_method entry, display_url (url entry)))
                (zip [1 ..< Suc (length slowest)] slowest)\<rparr>))"

text \<open>\<^verbatim>\<open>str(i)\<close> for an integer: its decimal digits, after a minus sign if it is negative.\<close>

definition digit_char :: "nat \<Rightarrow> char" where
  "digit_char d = ''0123456789'' ! d"

function nat_digits :: "nat \<Rightarrow> string" where
  "nat_digits n = (if n < 10 then [digit_char n] else nat_digits (n div 10) @ [digit_char (n mod 10)])"
  by pat_completeness auto
termination
  by (relation "measure (\<lambda>n. n)") auto

declare nat_digits.simps [simp del]

definition int_str :: "int \<Rightarrow> string" where
  "int_str i = (if i < 0 then CHR ''-'' # nat_digits (nat (- i)) else nat_digits (nat i))"

text \<open>
  What \<^verbatim>\<open>json.load\<close> reads back from what \<^verbatim>\<open>json.dump\<close> wrote. The encoder writes
  every key of a dict as a string, an integer key as \<^verbatim>\<open>str(key)\<close>; the decoder builds
  each dict by storing the pairs in the order of the text. Numbers and strings come
  back as they were.
\<close>

fun key_str :: "pykey \<Rightarrow> string" where
  "key_str (KStr s) = s"
| "key_str (KInt i) = int_str i"

fun json_roundtrip :: "py \<Rightarrow> py" where
  "json_roundtrip (PList xs) = PList (map json_roundtrip xs)"
| "json_roundtrip (PDict d) =
     PDict (dict_of_items (map (\<lambda>(k, v). (KStr (key_str k), json_roundtrip v)) d))"
| "json_roundtrip v = v"

text \<open>
  The values of the typed records and of the statistics as Python values. A number that
  is a \<^typ>\<open>real\<close> here is written as a float; whether Python holds it as an \<^verbatim>\<open>int\<close>
  or a \<^verbatim>\<open>float\<close>, it is read back as it was written.
\<close>

definition block_py :: "StatBlock \<Rightarrow> py" where
  "block_py b =
     PDict [(KStr ''count'', PInt (int (stat_count b))), (KStr ''total'', PFloat (stat_total b)),
       (KStr ''average'', PFloat (stat_average b)), (KStr ''median'', PFloat (stat_median b)),
       (KStr ''min'', PFloat (stat_min b)), (KStr ''max'', PFloat (stat_max b)),
       (KStr ''std_dev'', PFloat (stat_std_dev b))]"

definition slowest_py :: "timing_info \<Rightarrow> py" where
  "slowest_py entry =
     PDict [(KStr ''url'', PStr (url entry)), (KStr ''method'', PStr (http_method entry)),
       (KStr ''status'', PInt (status entry)), (KStr ''total_time_ms'', PFloat (total_time entry))]"

definition status_py :: "(int \<times> nat) list \<Rightarrow> py" where
  "status_py status_counts = PDict (map (\<lambda>(k, c). (KInt k, PInt (int c))) status_counts)"

text \<open>\<^verbatim>\<open>output_data\<close> of \<^verbatim>\<open>export_to_json\<close>, lines 190 to 210.\<close>

definition output_data :: "string \<Rightarrow> timing_info list \<Rightarrow> py outcome" where
  "output_data file es =
     bind (calculate_statistics es) (\<lambda>stats.
     let slowest = get_slowest_requests 10 es;
         status_counts = get_requests_by_status es
     in Return (PDict
          [(KStr ''summary'', PDict
              [(KStr ''source_file'', PStr file),
               (KStr ''total_requests'', PInt (int (length es))),
               (KStr ''status_distribution'', status_py status_counts)]),
           (KStr ''timing_statistics'', PDict (map (\<lambda>(phase, b). (KStr phase, block_py b)) stats)),
           (KStr ''slowest_requests'', PList (map slowest_py slowest))]))"

text \<open>
  \<^verbatim>\<open>export_to_json\<close> returns the document a later \<^verbatim>\<open>json.load\<close> of the output file
  gives, with the line it prints.
\<close>

definition export_to_json :: "env \<Rightarrow> string \<Rightarrow> timing_info list \<Rightarrow> string \<Rightarrow> (py \<times> string) outcome" where
  "export_to_json e file es output_file =
     bind (output_data file es) (\<lambda>doc.
     if writable e output_file
     then Return (json_roundtrip doc, ''Analysis exported to: '' @ output_file)
     else Raise OSError)"

section \<open>The command line\<close>

definition usage :: "string list" where
  "usage =
     [''Usage: python har_analyzer.py <har_file_path> [--export <output.json>]'',
      CHR 0x0A # ''Example:'',
      ''  python har_analyzer.py mywebsite.har'',
      ''  python har_analyzer.py mywebsite.har --export results.json'']"

text \<open>
  A run that ends normally gives the report and, when an export was asked for, the
  path and the content of the export file with the confirmation line.
\<close>

definition main :: "env \<Rightarrow> string list \<Rightarrow> (report \<times> (string \<times> py \<times> string) option) outcome" where
  "main e argv =
     (if length argv < 2 then SysExit usage 1
      else
        let har_file = argv ! 1;
            export_file = (if length argv \<ge> 4 \<and> argv ! 2 = ''--export'' then Some (argv ! 3) else None)
        in bind (extract_timings e (init e har_file)) (\<lambda>analyzer.
           case those (map typed (entries analyzer)) of
             None \<Rightarrow> IllTyped
           | Some es \<Rightarrow>
               bind (print_summary (har_file_path analyzer) es) (\<lambda>rep.
               case export_file of
                 None \<Rightarrow> Return (rep, None)
               | Some f \<Rightarrow>
                   if f = [] then Return (rep, None)
                   else bind (export_to_json e (har_file_path analyzer) es f)
                          (\<lambda>(doc, line). Return (rep, Some (f, doc, line))))))"

text \<open>The exit status of the process; an exception that nothing catches gives 1.\<close>

fun exit_code :: "'a outcome \<Rightarrow> nat option" where
  "exit_code (Return x) = Some 0"
| "exit_code (SysExit out c) = Some c"
| "exit_code (Raise x) = Some 1"
| "exit_code IllTyped = None"

section \<open>Notions used in the statements\<close>



text \<open>The values that \<^verbatim>\<open>max(0, value)\<close> accepts: Python compares them with 0.\<close>

fun numeric :: "py \<Rightarrow> bool" where
  "numeric (PInt i) = True"
| "numeric (PFloat x) = True"
| "numeric (PBool b) = True"
| "numeric v = False"

fun is_dict :: "py \<Rightarrow> bool" where
  "is_dict (PDict d) = True"
| "is_dict v = False"

definition phase_keys :: "string list" where
  "phase_keys = [''blocked'', ''dns'', ''connect'', ''send'', ''wait'', ''receive'', ''ssl'']"

text \<open>
  An entry the extractor can turn into a record: an object in which \<^verbatim>\<open>request\<close>,
  \<^verbatim>\<open>response\<close> and \<^verbatim>\<open>timings\<close>, where present, are objects, and in which each of the
  seven phase values, where present, is a number or a boolean.
\<close>

definition well_shaped :: "py \<Rightarrow> bool" where
  "well_shaped entry =
     (case entry of
        PDict d \<Rightarrow>
          is_dict (dict_get d (KStr ''request'') (PDict [])) \<and>
          is_dict (dict_get d (KStr ''response'') (PDict [])) \<and>
          (case dict_get d (KStr ''timings'') (PDict []) of
             PDict t \<Rightarrow> list_all (\<lambda>key. numeric (dict_get t (KStr key) (PInt 0))) phase_keys
           | _ \<Rightarrow> False)
      | _ \<Rightarrow> False)"



text \<open>A document with a \<^verbatim>\<open>log\<close> object that has the key \<^verbatim>\<open>entries\<close>.\<close>

definition has_log_entries :: "py \<Rightarrow> bool" where
  "has_log_entries doc =
     (case doc of
        PDict har \<Rightarrow>
          (case map_of har (KStr ''log'') of
             Some (PDict lg) \<Rightarrow> map_of lg (KStr ''entries'') \<noteq> None
           | _ \<Rightarrow> False)
      | _ \<Rightarrow> False)"


section \<open>Sample inputs\<close>

definition ra :: timing_info where
  "ra = \<lparr>url = ''http://a/1'', http_method = ''GET'', status = 200, total_time = 50, blocked = 0,
     dns = 5, connect = 0, send = 0, wait = 10, receive = 0, ssl = 0\<rparr>"

definition rb :: timing_info where
  "rb = \<lparr>url = ''http://a/2'', http_method = ''GET'', status = 200, total_time = 150, blocked = 0,
     dns = 0, connect = 0, send = 0, wait = 30, receive = 0, ssl = 0\<rparr>"

definition r0 :: timing_info where
  "r0 = \<lparr>url = ''http://a/'', http_method = ''GET'', status = 200, total_time = 0, blocked = 0,
     dns = 0, connect = 0, send = 0, wait = 0, receive = 0, ssl = 0\<rparr>"

definition entry1 :: "(pykey \<times> py) list" where
  "entry1 =
     [(KStr ''request'', PDict [(KStr ''url'', PStr ''http://a/3''), (KStr ''method'', PStr ''GET'')]),
      (KStr ''response'', PDict [(KStr ''status'', PInt 200)]),
      (KStr ''time'', PInt 120),
      (KStr ''timings'', PDict [(KStr ''blocked'', PInt (- 1)), (KStr ''dns'', PInt (- 1)),
         (KStr ''connect'', PInt 15), (KStr ''send'', PInt 1), (KStr ''wait'', PInt 80),
         (KStr ''receive'', PInt 24), (KStr ''ssl'', PInt (- 1))])]"

definition raw1 :: raw_timing where
  "raw1 = \<lparr>url = PStr ''http://a/3'', http_method = PStr ''GET'', status = PInt 200,
     total_time = PInt 120, blocked = PInt 0, dns = PInt 0, connect = PInt 15, send = PInt 1,
     wait = PInt 80, receive = PInt 24, ssl = PInt 0\<rparr>"





definition env_with :: "py \<Rightarrow> env" where
  "env_with doc = \<lparr>path_str = (\<lambda>s. s), open_json = (\<lambda>p. Parsed doc), writable = (\<lambda>p. True)\<rparr>"

definition doc_null_phase :: py where
  "doc_null_phase =
     PDict [(KStr ''log'', PDict [(KStr ''entries'',
       PList [PDict [], PDict [(KStr ''timings'', PDict [(KStr ''dns'', PNone)])]])])]"

definition doc_null_request :: py where
  "doc_null_request =
     PDict [(KStr ''log'', PDict [(KStr ''entries'', PList [PDict [(KStr ''request'', PNone)]])])]"

definition env_missing :: env where
  "env_missing = \<lparr>path_str = (\<lambda>s. s), open_json = (\<lambda>p. NotFound), writable = (\<lambda>p. True)\<rparr>"

definition env_malformed :: env where
  "env_malformed =
     \<lparr>path_str = (\<lambda>s. s), open_json = (\<lambda>p. Malformed ''Expecting value: line 1 column 1 (char 0)''),
      writable = (\<lambda>p. True)\<rparr>"

definition doc_no_entries :: py where
  "doc_no_entries = PDict [(KStr ''log'', PDict [(KStr ''version'', PStr ''1.2'')])]"

definition doc_null_log :: py where
  "doc_null_log = PDict [(KStr ''log'', PNone)]"

definition raw_empty :: raw_timing where
  "raw_empty = \<lparr>url = PStr ''unknown'', http_method = PStr ''unknown'', status = PInt 0,
     total_time = PInt 0, blocked = PInt 0, dns = PInt 0, connect = PInt 0, send = PInt 0,
     wait = PInt 0, receive = PInt 0, ssl = PInt 0\<rparr>"

definition doc_two :: py where
  "doc_two = PDict [(KStr ''log'', PDict [(KStr ''entries'', PList [PDict [], PDict entry1])])]"




section \<open>Facts about dictionaries\<close>

lemma map_fst_dict_set_old: "k \<in> fst ` set d \<Longrightarrow> map fst (dict_set k v d) = map fst d"
  by (induction d) force+

lemma map_fst_dict_set_new: "k \<notin> fst ` set d \<Longrightarrow> map fst (dict_set k v d) = map fst d @ [k]"
  by (induction d) auto

lemma map_fst_dict_set:
  "map fst (dict_set k v d) = (if k \<in> set (map fst d) then map fst d else map fst d @ [k])"
  by (simp add: map_fst_dict_set_old map_fst_dict_set_new)

lemma dict_set_new: "k \<notin> fst ` set d \<Longrightarrow> dict_set k v d = d @ [(k, v)]"
  by (induction d) auto

lemma distinct_dict_set: "distinct (map fst d) \<Longrightarrow> distinct (map fst (dict_set k v d))"
  by (simp add: map_fst_dict_set)

lemma sum_snd_dict_set:
  "distinct (map fst d) \<Longrightarrow>
   sum_list (map snd (dict_set k (dict_get d k 0 + 1) d)) = sum_list (map snd d) + (1::nat)"
proof (induction d)
  case Nil
  then show ?case by (simp add: dict_get_def)
next
  case (Cons p d)
  obtain k' v' where p: "p = (k', v')" by (cases p)
  show ?case
  proof (cases "k' = k")
    case True
    then show ?thesis using p by (simp add: dict_get_def)
  next
    case False
    have "dict_get (p # d) k 0 = dict_get d k 0"
      using False p by (simp add: dict_get_def)
    then show ?thesis using Cons False p by simp
  qed
qed

lemma dict_of_items_fold:
  "distinct (map fst (d @ items)) \<Longrightarrow> fold (\<lambda>(k, v) d. dict_set k v d) items d = d @ items"
proof (induction items arbitrary: d)
  case Nil
  then show ?case by simp
next
  case (Cons p items)
  obtain k v where p: "p = (k, v)" by (cases p)
  have "k \<notin> fst ` set d" using Cons.prems p by auto
  then have app: "dict_set k v d = d @ [(k, v)]" by (rule dict_set_new)
  have "distinct (map fst ((d @ [(k, v)]) @ items))" using Cons.prems p by simp
  from Cons.IH[OF this] show ?case using p app by simp
qed

lemma dict_of_items_distinct: "distinct (map fst items) \<Longrightarrow> dict_of_items items = items"
  using dict_of_items_fold[of "[]" items] by (simp add: dict_of_items_def)

section \<open>Properties of the status histogram\<close>

lemma count_loop_inv:
  "distinct (map fst d) \<Longrightarrow>
   distinct (map fst (count_loop es d)) \<and>
   set (map fst (count_loop es d)) = set (map fst d) \<union> status ` set es \<and>
   sum_list (map snd (count_loop es d)) = sum_list (map snd d) + length es"
proof (induction es arbitrary: d)
  case Nil
  then show ?case by simp
next
  case (Cons e es)
  let ?d' = "dict_set (status e) (dict_get d (status e) 0 + 1) d"
  have d': "distinct (map fst ?d')" using Cons.prems by (rule distinct_dict_set)
  have keys: "set (map fst ?d') = insert (status e) (set (map fst d))"
    by (auto simp: map_fst_dict_set)
  have total: "sum_list (map snd ?d') = sum_list (map snd d) + 1"
    using Cons.prems by (rule sum_snd_dict_set)
  from Cons.IH[OF d'] keys total show ?case by auto
qed

lemma sum_list_insort_key:
  "sum_list (map g (insort_key f x xs)) = g x + sum_list (map g xs)" for g :: "'a \<Rightarrow> nat"
  by (induction xs) auto

lemma sum_list_sort_key:
  "sum_list (map g (sort_key f xs)) = sum_list (map g xs)" for g :: "'a \<Rightarrow> nat"
  by (induction xs) (auto simp: sum_list_insort_key)

lemma distinct_map_fst_sort: "distinct (map fst xs) \<Longrightarrow> distinct (map fst (sort xs))"
  by (simp add: distinct_map)

lemma sorted_map_fst: "sorted xs \<Longrightarrow> sorted (map fst xs)" for xs :: "(int \<times> nat) list"
  by (induction xs) (auto simp: less_eq_prod_def)

lemma get_requests_by_status_sort:
  "get_requests_by_status es = sort (count_loop es [])"
proof -
  have "distinct (map fst (count_loop es []))" using count_loop_inv[of "[]" es] by simp
  then have "distinct (map fst (sort (count_loop es [])))" by (rule distinct_map_fst_sort)
  then show ?thesis by (simp add: get_requests_by_status_def dict_of_items_distinct)
qed

text \<open>
  C6: for every record list, the keys of the histogram that \<open>get_requests_by_status\<close>
  returns are exactly the status values that occur in the records (0 among them when a
  record has it), each once and in strictly ascending order, and the counts add up to the
  number of records.
\<close>

theorem C6_status_histogram:
  "distinct (map fst (get_requests_by_status es)) \<and>
   set (map fst (get_requests_by_status es)) = status ` set es \<and>
   sorted_wrt (<) (map fst (get_requests_by_status es)) \<and>
   sum_list (map snd (get_requests_by_status es)) = length es"
proof -
  let ?c = "count_loop es []"
  have inv: "distinct (map fst ?c)" "set (map fst ?c) = status ` set es"
    "sum_list (map snd ?c) = length es"
    using count_loop_inv[of "[]" es] by simp_all
  have ds: "distinct (map fst (sort ?c))" using inv(1) by (rule distinct_map_fst_sort)
  have "sorted (map fst (sort ?c))" by (rule sorted_map_fst) simp
  then have "sorted_wrt (<) (map fst (sort ?c))" using ds by (simp add: strict_sorted_iff)
  moreover have "set (map fst (sort ?c)) = status ` set es"
    using inv(2) by simp
  moreover have "sum_list (map snd (sort ?c)) = length es"
    using inv(3) by (simp add: sum_list_sort_key)
  ultimately show ?thesis using ds by (simp add: get_requests_by_status_sort)
qed

section \<open>Properties of the statistics engine\<close>

lemma phase_values_none: "\<forall>e \<in> set es. f e \<le> 0 \<Longrightarrow> phase_values f es = []"
  by (auto simp: phase_values_def filter_empty_conv)

lemma phase_block_Nil: "phase_block [] = Return zero_block"
  by (simp add: phase_block_def)



















text \<open>
  C7: on an empty record list \<open>calculate_statistics\<close> returns the empty result, with no
  quantity in it. On a record list that is not empty and in which no value is above zero,
  it returns all eight quantities, each with every field zero; the two results differ.
\<close>

theorem C7_empty_session_statistics:
  "calculate_statistics [] = Return [] \<and>
   (es \<noteq> [] \<and> (\<forall>e \<in> set es. total_time e \<le> 0 \<and> blocked e \<le> 0 \<and> dns e \<le> 0 \<and>
        connect e \<le> 0 \<and> send e \<le> 0 \<and> wait e \<le> 0 \<and> receive e \<le> 0 \<and> ssl e \<le> 0) \<longrightarrow>
    calculate_statistics es =
      Return [(''total_time'', zero_block), (''blocked'', zero_block), (''dns'', zero_block),
        (''connect'', zero_block), (''send'', zero_block), (''wait'', zero_block),
        (''receive'', zero_block), (''ssl'', zero_block)] \<and>
    calculate_statistics es \<noteq> calculate_statistics [])"
proof -
  have empty: "calculate_statistics [] = Return []"
    by (simp add: calculate_statistics_def)
  have zero: "calculate_statistics es =
      Return [(''total_time'', zero_block), (''blocked'', zero_block), (''dns'', zero_block),
        (''connect'', zero_block), (''send'', zero_block), (''wait'', zero_block),
        (''receive'', zero_block), (''ssl'', zero_block)]"
    if ne: "es \<noteq> []" and z: "\<forall>e \<in> set es. total_time e \<le> 0 \<and> blocked e \<le> 0 \<and> dns e \<le> 0 \<and>
        connect e \<le> 0 \<and> send e \<le> 0 \<and> wait e \<le> 0 \<and> receive e \<le> 0 \<and> ssl e \<le> 0"
  proof -
    have v: "phase_values total_time es = []" "phase_values blocked es = []"
      "phase_values dns es = []" "phase_values connect es = []" "phase_values send es = []"
      "phase_values wait es = []" "phase_values receive es = []" "phase_values ssl es = []"
      using z by (simp_all add: phase_values_none)
    show ?thesis using ne
      by (simp add: calculate_statistics_def timing_phases_def v phase_block_Nil)
  qed
  show ?thesis using empty zero by simp
qed

theorem C7_empty_session_statistics_witness:
  "[r0] \<noteq> [] \<and>
   calculate_statistics [r0] =
      Return [(''total_time'', zero_block), (''blocked'', zero_block), (''dns'', zero_block),
        (''connect'', zero_block), (''send'', zero_block), (''wait'', zero_block),
        (''receive'', zero_block), (''ssl'', zero_block)] \<and>
   calculate_statistics [r0] \<noteq> calculate_statistics []"
  using C7_empty_session_statistics[of "[r0]"] by (simp add: r0_def)

section \<open>Properties of the ranking\<close>

lemma sorted_reverse_stable:
  "filter (\<lambda>e. k e = t) (sorted_reverse k xs) = filter (\<lambda>e. k e = t) xs"
proof -
  have "filter (\<lambda>e. k e = t) (sort_key k (rev xs)) = filter (\<lambda>e. k e = t) (rev xs)"
    by (rule sort_key_stable)
  then show ?thesis by (simp add: sorted_reverse_def rev_filter[symmetric])
qed

lemma sorted_reverse_descending:
  "sorted_wrt (\<lambda>a b. k a \<ge> k b) (sorted_reverse k xs)"
proof -
  have "sorted (map k (sort_key k (rev xs)))" by (rule sorted_sort_key)
  then have "sorted_wrt (\<lambda>a b. k a \<le> k b) (sort_key k (rev xs))"
    by (simp add: sorted_wrt_map)
  then show ?thesis by (simp add: sorted_reverse_def sorted_wrt_rev)
qed

lemma length_sorted_reverse: "length (sorted_reverse k xs) = length xs"
  by (simp add: sorted_reverse_def)



lemma sorted_wrt_take_local: "sorted_wrt P xs \<Longrightarrow> sorted_wrt P (take m xs)"
  by (metis append_take_drop_id sorted_wrt_append)



text \<open>
  C2, amended: for every record list and every \<open>N \<ge> 0\<close>, \<open>get_slowest_requests\<close> returns
  the first \<open>N\<close> records of the ranking of all records by \<open>total_time\<close> in descending
  order, in which records of equal \<open>total_time\<close> keep their extraction order. So the
  returned list is descending, its records of any one \<open>total_time\<close> are the first ones of
  the original list in their original order, and its length is \<open>min(N, number of records)\<close>.
\<close>

theorem C2_slowest_requests:
  assumes "0 \<le> n"
  shows "\<exists>ranking.
     get_slowest_requests n es = take (nat n) ranking \<and>
     sorted_wrt (\<lambda>a b. total_time a \<ge> total_time b) ranking \<and>
     (\<forall>t. filter (\<lambda>e. total_time e = t) ranking = filter (\<lambda>e. total_time e = t) es) \<and>
     sorted_wrt (\<lambda>a b. total_time a \<ge> total_time b) (get_slowest_requests n es) \<and>
     (\<forall>t. \<exists>rest. filter (\<lambda>e. total_time e = t) es =
            filter (\<lambda>e. total_time e = t) (get_slowest_requests n es) @ rest) \<and>
     int (length (get_slowest_requests n es)) = min n (int (length es))"
proof -
  let ?r = "sorted_reverse total_time es"
  have eq: "get_slowest_requests n es = take (nat n) ?r"
    using assms by (simp add: get_slowest_requests_def slice_to_def)
  have desc: "sorted_wrt (\<lambda>a b. total_time a \<ge> total_time b) ?r"
    by (rule sorted_reverse_descending)
  have stable: "filter (\<lambda>e. total_time e = t) ?r = filter (\<lambda>e. total_time e = t) es" for t
    by (rule sorted_reverse_stable)
  have desc': "sorted_wrt (\<lambda>a b. total_time a \<ge> total_time b) (take (nat n) ?r)"
    using desc by (rule sorted_wrt_take_local)
  have ties: "\<exists>rest. filter (\<lambda>e. total_time e = t) es =
            filter (\<lambda>e. total_time e = t) (take (nat n) ?r) @ rest" for t
  proof -
    have "filter (\<lambda>e. total_time e = t) es =
          filter (\<lambda>e. total_time e = t) (take (nat n) ?r @ drop (nat n) ?r)"
      by (simp add: stable)
    then show ?thesis by (metis filter_append)
  qed
  have len: "int (length (take (nat n) ?r)) = min n (int (length es))"
    using assms by (simp add: length_sorted_reverse)
  show ?thesis
    using eq desc stable desc' ties len by (intro exI[of _ ?r]) simp
qed

theorem C2_slowest_requests_witness:
  "(0::int) \<le> 1 \<and> get_slowest_requests 1 [ra, rb] = [rb] \<and>
   (\<exists>ranking.
     get_slowest_requests 1 [ra, rb] = take (nat 1) ranking \<and>
     sorted_wrt (\<lambda>a b. total_time a \<ge> total_time b) ranking \<and>
     (\<forall>t. filter (\<lambda>e. total_time e = t) ranking = filter (\<lambda>e. total_time e = t) [ra, rb]) \<and>
     sorted_wrt (\<lambda>a b. total_time a \<ge> total_time b) (get_slowest_requests 1 [ra, rb]) \<and>
     (\<forall>t. \<exists>rest. filter (\<lambda>e. total_time e = t) [ra, rb] =
            filter (\<lambda>e. total_time e = t) (get_slowest_requests 1 [ra, rb]) @ rest) \<and>
     int (length (get_slowest_requests 1 [ra, rb])) = min 1 (int (length [ra, rb])))"
proof -
  have h: "(0::int) \<le> 1" by simp
  have v: "get_slowest_requests 1 [ra, rb] = [rb]"
    by (simp add: get_slowest_requests_def slice_to_def sorted_reverse_def ra_def rb_def)
  show ?thesis using h v C2_slowest_requests[OF h, of "[ra, rb]"] by blast
qed

text \<open>
  With \<open>N = -1\<close> the slice \<^verbatim>\<open>[:n]\<close> drops the last record of the ranking: of two
  records one is returned, which is not \<open>min(N, 2)\<close>.
\<close>

theorem C2_negative_count_counterexample:
  "get_slowest_requests (- 1) [ra, rb] = [rb] \<and>
   int (length (get_slowest_requests (- 1) [ra, rb])) \<noteq> min (- 1) (int (length [ra, rb]))"
  by (simp add: get_slowest_requests_def slice_to_def sorted_reverse_def ra_def rb_def)

section \<open>Properties of the extractor\<close>

lemma bind_eq_Return: "bind m f = Return y \<longleftrightarrow> (\<exists>x. m = Return x \<and> f x = Return y)"
  by (cases m) auto

lemma py_get_Return:
  "py_get obj key dflt = Return v \<longleftrightarrow> (\<exists>d. obj = PDict d \<and> v = dict_get d (KStr key) dflt)"
  by (cases obj) auto

lemma py_max0_Return: "(\<exists>x. py_max0 v = Return x) \<longleftrightarrow> numeric v"
  by (cases v) auto



lemma get_timing_Return:
  "get_timing timings key = Return x \<longleftrightarrow>
   (\<exists>t. timings = PDict t \<and> py_max0 (dict_get t (KStr key) (PInt 0)) = Return x)"
  by (cases timings) (auto simp: get_timing_def)

lemma timing_info_of_Return:
  "timing_info_of entry = Return raw \<longleftrightarrow>
   (\<exists>d req resp t v1 v2 v3 v4 v5 v6 v7.
      entry = PDict d \<and>
      dict_get d (KStr ''request'') (PDict []) = PDict req \<and>
      dict_get d (KStr ''response'') (PDict []) = PDict resp \<and>
      dict_get d (KStr ''timings'') (PDict []) = PDict t \<and>
      py_max0 (dict_get t (KStr ''blocked'') (PInt 0)) = Return v1 \<and>
      py_max0 (dict_get t (KStr ''dns'') (PInt 0)) = Return v2 \<and>
      py_max0 (dict_get t (KStr ''connect'') (PInt 0)) = Return v3 \<and>
      py_max0 (dict_get t (KStr ''send'') (PInt 0)) = Return v4 \<and>
      py_max0 (dict_get t (KStr ''wait'') (PInt 0)) = Return v5 \<and>
      py_max0 (dict_get t (KStr ''receive'') (PInt 0)) = Return v6 \<and>
      py_max0 (dict_get t (KStr ''ssl'') (PInt 0)) = Return v7 \<and>
      raw = \<lparr>url = dict_get req (KStr ''url'') (PStr ''unknown''),
             http_method = dict_get req (KStr ''method'') (PStr ''unknown''),
             status = dict_get resp (KStr ''status'') (PInt 0),
             total_time = dict_get d (KStr ''time'') (PInt 0),
             blocked = v1, dns = v2, connect = v3, send = v4, wait = v5, receive = v6, ssl = v7\<rparr>)"
  unfolding timing_info_of_def bind_eq_Return py_get_Return get_timing_Return
  by auto

lemma is_dict_iff: "is_dict v \<longleftrightarrow> (\<exists>d. v = PDict d)"
  by (cases v) auto

lemma well_shaped_returns: "well_shaped entry \<longleftrightarrow> (\<exists>raw. timing_info_of entry = Return raw)"
proof
  assume "well_shaped entry"
  then obtain d req resp t where s: "entry = PDict d"
      "dict_get d (KStr ''request'') (PDict []) = PDict req"
      "dict_get d (KStr ''response'') (PDict []) = PDict resp"
      "dict_get d (KStr ''timings'') (PDict []) = PDict t"
      "list_all (\<lambda>key. numeric (dict_get t (KStr key) (PInt 0))) phase_keys"
    by (auto simp: well_shaped_def is_dict_iff split: py.splits)
  from s(5) obtain v1 v2 v3 v4 v5 v6 v7 where
      "py_max0 (dict_get t (KStr ''blocked'') (PInt 0)) = Return v1"
      "py_max0 (dict_get t (KStr ''dns'') (PInt 0)) = Return v2"
      "py_max0 (dict_get t (KStr ''connect'') (PInt 0)) = Return v3"
      "py_max0 (dict_get t (KStr ''send'') (PInt 0)) = Return v4"
      "py_max0 (dict_get t (KStr ''wait'') (PInt 0)) = Return v5"
      "py_max0 (dict_get t (KStr ''receive'') (PInt 0)) = Return v6"
      "py_max0 (dict_get t (KStr ''ssl'') (PInt 0)) = Return v7"
    by (auto simp: phase_keys_def py_max0_Return[symmetric])
  with s(1-4) show "\<exists>raw. timing_info_of entry = Return raw"
    unfolding timing_info_of_Return by blast
next
  assume "\<exists>raw. timing_info_of entry = Return raw"
  then obtain d req resp t v1 v2 v3 v4 v5 v6 v7 where s: "entry = PDict d"
      "dict_get d (KStr ''request'') (PDict []) = PDict req"
      "dict_get d (KStr ''response'') (PDict []) = PDict resp"
      "dict_get d (KStr ''timings'') (PDict []) = PDict t"
      "py_max0 (dict_get t (KStr ''blocked'') (PInt 0)) = Return v1"
      "py_max0 (dict_get t (KStr ''dns'') (PInt 0)) = Return v2"
      "py_max0 (dict_get t (KStr ''connect'') (PInt 0)) = Return v3"
      "py_max0 (dict_get t (KStr ''send'') (PInt 0)) = Return v4"
      "py_max0 (dict_get t (KStr ''wait'') (PInt 0)) = Return v5"
      "py_max0 (dict_get t (KStr ''receive'') (PInt 0)) = Return v6"
      "py_max0 (dict_get t (KStr ''ssl'') (PInt 0)) = Return v7"
    unfolding timing_info_of_Return by blast
  have "list_all (\<lambda>key. numeric (dict_get t (KStr key) (PInt 0))) phase_keys"
    using s(5-11) by (auto simp: phase_keys_def py_max0_Return[symmetric])
  then show "well_shaped entry" using s(1-4) by (simp add: well_shaped_def)
qed






lemma extract_loop_Return:
  "extract_loop es self = Return self' \<longleftrightarrow>
   (\<exists>raws. list_all2 (\<lambda>entry raw. timing_info_of entry = Return raw) es raws \<and>
      self' = self\<lparr>entries := entries self @ raws\<rparr>)"
proof (induction es arbitrary: self)
  case Nil
  then show ?case by auto
next
  case (Cons e es)
  show ?case
    by (auto simp: bind_eq_Return Cons.IH list_all2_Cons1)
qed

lemma entry1_raw1: "timing_info_of (PDict entry1) = Return raw1"
  by (simp add: timing_info_of_def entry1_def raw1_def get_timing_def dict_get_def)










section \<open>Entries the extractor accepts\<close>

lemma key_in_dict: "k \<in> fst ` set d \<longleftrightarrow> map_of d k \<noteq> None"
  by (simp add: map_of_eq_None_iff)

lemma extract_timings_valid:
  assumes "open_json e (har_file_path self) = Parsed (PDict har)"
    and "map_of har (KStr ''log'') = Some (PDict lg)"
    and "map_of lg (KStr ''entries'') = Some (PList es)"
  shows "extract_timings e self = extract_loop es self"
  using assms by (simp add: extract_timings_def load_har_def key_in_dict)

lemma extract_loop_well_shaped:
  assumes "list_all well_shaped es"
  shows "\<exists>raws. extract_loop es self = Return (self\<lparr>entries := entries self @ raws\<rparr>) \<and>
           list_all2 (\<lambda>entry raw. timing_info_of entry = Return raw) es raws"
proof -
  from assms have "\<exists>raws. list_all2 (\<lambda>entry raw. timing_info_of entry = Return raw) es raws"
  proof (induction es)
    case Nil
    then show ?case by simp
  next
    case (Cons x xs)
    then obtain raw raws where "timing_info_of x = Return raw"
        "list_all2 (\<lambda>entry raw. timing_info_of entry = Return raw) xs raws"
      by (auto simp: well_shaped_returns)
    then have "list_all2 (\<lambda>entry raw. timing_info_of entry = Return raw) (x # xs) (raw # raws)"
      by simp
    then show ?case by blast
  qed
  then show ?thesis by (auto simp: extract_loop_Return)
qed

lemma omitted_well_shaped:
  assumes "map_of d (KStr ''request'') = None" "map_of d (KStr ''response'') = None"
    "map_of d (KStr ''timings'') = None"
  shows "well_shaped (PDict d)"
  using assms by (simp add: well_shaped_def dict_get_def phase_keys_def)

lemma omitted_defaults:
  assumes "timing_info_of (PDict d) = Return raw"
  shows "map_of d (KStr ''request'') = None \<Longrightarrow> url raw = PStr ''unknown'' \<and> http_method raw = PStr ''unknown''"
    "map_of d (KStr ''response'') = None \<Longrightarrow> status raw = PInt 0"
    "map_of d (KStr ''time'') = None \<Longrightarrow> total_time raw = PInt 0"
    "map_of d (KStr ''timings'') = None \<Longrightarrow>
       blocked raw = PInt 0 \<and> dns raw = PInt 0 \<and> connect raw = PInt 0 \<and> send raw = PInt 0 \<and>
       wait raw = PInt 0 \<and> receive raw = PInt 0 \<and> ssl raw = PInt 0"
  using assms unfolding timing_info_of_Return by (auto simp: dict_get_def)

lemma empty_entry: "timing_info_of (PDict []) = Return raw_empty"
  by (simp add: timing_info_of_def raw_empty_def get_timing_def dict_get_def)

text \<open>
  C5, amended: the extractor builds a record from an entry exactly when the entry is an
  object in which \<^verbatim>\<open>request\<close>, \<^verbatim>\<open>response\<close> and \<^verbatim>\<open>timings\<close>, where present, are objects
  and each of the seven phase values, where present, is a number or a boolean. An entry
  that omits \<^verbatim>\<open>request\<close>, \<^verbatim>\<open>response\<close> and \<^verbatim>\<open>timings\<close> is one of these: an omitted
  \<^verbatim>\<open>request\<close> gives the url and method \<^verbatim>\<open>"unknown"\<close>, an omitted \<^verbatim>\<open>response\<close> the status
  0, an omitted \<^verbatim>\<open>time\<close> the total time 0, omitted \<^verbatim>\<open>timings\<close> seven phases of 0. When
  every entry of the list has that shape, the loop returns one record for each entry, in
  order, and each record is the one its own entry gives.
\<close>

theorem C5_entry_robustness:
  "(well_shaped entry \<longleftrightarrow> (\<exists>raw. timing_info_of entry = Return raw)) \<and>
   (map_of d (KStr ''request'') = None \<and> map_of d (KStr ''response'') = None \<and>
    map_of d (KStr ''timings'') = None \<longrightarrow> well_shaped (PDict d)) \<and>
   (timing_info_of (PDict d) = Return raw \<longrightarrow>
      (map_of d (KStr ''request'') = None \<longrightarrow>
         url raw = PStr ''unknown'' \<and> http_method raw = PStr ''unknown'') \<and>
      (map_of d (KStr ''response'') = None \<longrightarrow> status raw = PInt 0) \<and>
      (map_of d (KStr ''time'') = None \<longrightarrow> total_time raw = PInt 0) \<and>
      (map_of d (KStr ''timings'') = None \<longrightarrow>
         blocked raw = PInt 0 \<and> dns raw = PInt 0 \<and> connect raw = PInt 0 \<and> send raw = PInt 0 \<and>
         wait raw = PInt 0 \<and> receive raw = PInt 0 \<and> ssl raw = PInt 0)) \<and>
   (list_all well_shaped es \<longrightarrow>
      (\<exists>raws. extract_loop es self = Return (self\<lparr>entries := entries self @ raws\<rparr>) \<and>
         list_all2 (\<lambda>entry raw. timing_info_of entry = Return raw) es raws))"
  using well_shaped_returns[of entry] omitted_well_shaped[of d] omitted_defaults[of d raw]
    extract_loop_well_shaped[of es self]
  by blast

theorem C5_entry_robustness_witness:
  "well_shaped (PDict []) \<and> timing_info_of (PDict []) = Return raw_empty \<and>
   url raw_empty = PStr ''unknown'' \<and> http_method raw_empty = PStr ''unknown'' \<and>
   status raw_empty = PInt 0 \<and> total_time raw_empty = PInt 0 \<and>
   blocked raw_empty = PInt 0 \<and> dns raw_empty = PInt 0 \<and> connect raw_empty = PInt 0 \<and>
   send raw_empty = PInt 0 \<and> wait raw_empty = PInt 0 \<and> receive raw_empty = PInt 0 \<and>
   ssl raw_empty = PInt 0 \<and>
   list_all well_shaped [PDict [], PDict entry1] \<and>
   (\<exists>raws. extract_loop [PDict [], PDict entry1] (init (env_with doc_null_phase) ''x.har'') =
        Return ((init (env_with doc_null_phase) ''x.har'')
          \<lparr>entries := entries (init (env_with doc_null_phase) ''x.har'') @ raws\<rparr>) \<and>
      list_all2 (\<lambda>entry raw. timing_info_of entry = Return raw) [PDict [], PDict entry1] raws)"
proof -
  note t = C5_entry_robustness[of "PDict []" "[]" raw_empty "[PDict [], PDict entry1]"
      "init (env_with doc_null_phase) ''x.har''"]
  have h0: "map_of ([] :: (pykey \<times> py) list) (KStr ''request'') = None"
    "map_of ([] :: (pykey \<times> py) list) (KStr ''response'') = None"
    "map_of ([] :: (pykey \<times> py) list) (KStr ''timings'') = None"
    "map_of ([] :: (pykey \<times> py) list) (KStr ''time'') = None"
    by simp_all
  have h1: "timing_info_of (PDict []) = Return raw_empty" by (rule empty_entry)
  from t h0 have c0: "well_shaped (PDict [])" by blast
  from t h0 h1 have c1: "url raw_empty = PStr ''unknown'' \<and> http_method raw_empty = PStr ''unknown''"
    "status raw_empty = PInt 0" "total_time raw_empty = PInt 0"
    "blocked raw_empty = PInt 0 \<and> dns raw_empty = PInt 0 \<and> connect raw_empty = PInt 0 \<and>
     send raw_empty = PInt 0 \<and> wait raw_empty = PInt 0 \<and> receive raw_empty = PInt 0 \<and>
     ssl raw_empty = PInt 0"
    by blast+
  have "well_shaped (PDict entry1)" using entry1_raw1 by (auto simp: well_shaped_returns)
  with c0 have h2: "list_all well_shaped [PDict [], PDict entry1]" by simp
  from t h2 have c2: "\<exists>raws. extract_loop [PDict [], PDict entry1] (init (env_with doc_null_phase) ''x.har'') =
        Return ((init (env_with doc_null_phase) ''x.har'')
          \<lparr>entries := entries (init (env_with doc_null_phase) ''x.har'') @ raws\<rparr>) \<and>
      list_all2 (\<lambda>entry raw. timing_info_of entry = Return raw) [PDict [], PDict entry1] raws"
    by blast
  show ?thesis using c0 h1 c1 h2 c2 by blast
qed

text \<open>
  An entry whose \<^verbatim>\<open>timings.dns\<close> is \<^verbatim>\<open>null\<close> makes \<^verbatim>\<open>max(0, value)\<close> raise
  \<^verbatim>\<open>TypeError\<close>, which nothing catches: the run ends there, and the record of the
  entry before it, which is extracted without error on its own, is lost with it.
\<close>

theorem C5_null_phase_counterexample:
  "timing_info_of (PDict []) = Return raw_empty \<and>
   timing_info_of (PDict [(KStr ''timings'', PDict [(KStr ''dns'', PNone)])]) = Raise TypeError \<and>
   main (env_with doc_null_phase) [''har_analyzer.py'', ''x.har''] = Raise TypeError"
  by (simp add: raw_empty_def main_def init_def env_with_def doc_null_phase_def extract_timings_def
      load_har_def timing_info_of_def get_timing_def dict_get_def)

text \<open>
  C9, amended: for a document with a \<^verbatim>\<open>log\<close> object whose \<^verbatim>\<open>entries\<close> is a list, if
  every entry has the shape that the extractor accepts, then extraction returns and the
  number of records equals the number of entries; and whenever extraction returns, the
  two numbers are equal.
\<close>

theorem C9_record_count:
  assumes "open_json e (path_str e file) = Parsed (PDict har)"
    and "map_of har (KStr ''log'') = Some (PDict lg)"
    and "map_of lg (KStr ''entries'') = Some (PList es)"
  shows "(list_all well_shaped es \<longrightarrow>
           (\<exists>a. extract_timings e (init e file) = Return a \<and> length (entries a) = length es)) \<and>
         (\<forall>a. extract_timings e (init e file) = Return a \<longrightarrow> length (entries a) = length es)"
proof -
  have eq: "extract_timings e (init e file) = extract_loop es (init e file)"
    using assms by (intro extract_timings_valid) (simp_all add: init_def)
  have "length (entries a) = length es" if "extract_loop es (init e file) = Return a" for a
    using that by (auto simp: extract_loop_Return init_def dest: list_all2_lengthD)
  then show ?thesis
    using extract_loop_well_shaped[of es "init e file"] unfolding eq by blast
qed

theorem C9_record_count_witness:
  "list_all well_shaped [PDict [], PDict entry1] \<and>
   (\<exists>a. extract_timings (env_with doc_two) (init (env_with doc_two) ''x.har'') = Return a \<and>
        length (entries a) = length [PDict [], PDict entry1])"
proof -
  have h: "open_json (env_with doc_two) (path_str (env_with doc_two) ''x.har'') =
      Parsed (PDict [(KStr ''log'', PDict [(KStr ''entries'', PList [PDict [], PDict entry1])])])"
    "map_of [(KStr ''log'', PDict [(KStr ''entries'', PList [PDict [], PDict entry1])])] (KStr ''log'') =
      Some (PDict [(KStr ''entries'', PList [PDict [], PDict entry1])])"
    "map_of [(KStr ''entries'', PList [PDict [], PDict entry1])] (KStr ''entries'') =
      Some (PList [PDict [], PDict entry1])"
    by (simp_all add: env_with_def doc_two_def)
  have ws: "list_all well_shaped [PDict [], PDict entry1]"
    using empty_entry entry1_raw1 by (simp add: well_shaped_returns)
  from C9_record_count[OF h] ws show ?thesis by blast
qed

text \<open>
  A document with a \<^verbatim>\<open>log\<close> object and an \<^verbatim>\<open>entries\<close> list of one entry whose
  \<^verbatim>\<open>request\<close> is \<^verbatim>\<open>null\<close>: extraction raises \<^verbatim>\<open>AttributeError\<close> and no record
  is produced.
\<close>

theorem C9_null_request_counterexample:
  "extract_timings (env_with doc_null_request) (init (env_with doc_null_request) ''x.har'') =
     Raise AttributeError"
  by (simp add: init_def env_with_def doc_null_request_def extract_timings_def
      load_har_def timing_info_of_def get_timing_def dict_get_def)

section \<open>Fatal errors\<close>

lemma main_exit:
  assumes "2 \<le> length argv" and "extract_timings e (init e (argv ! 1)) = SysExit out c"
  shows "main e argv = SysExit out c"
  using assms by (simp add: main_def Let_def)

lemma main_raise:
  assumes "2 \<le> length argv" and "extract_timings e (init e (argv ! 1)) = Raise x"
  shows "main e argv = Raise x"
  using assms by (simp add: main_def Let_def)

lemma invalid_structure:
  assumes "open_json e (har_file_path self) = Parsed doc" and "\<not> has_log_entries doc"
  shows "extract_timings e self = SysExit [''Error: Invalid HAR file format''] 1 \<or>
         extract_timings e self = Raise TypeError"
proof (cases doc)
  case (PDict har)
  show ?thesis
  proof (cases "map_of har (KStr ''log'')")
    case None
    then show ?thesis using assms PDict
      by (simp add: extract_timings_def load_har_def key_in_dict)
  next
    case (Some v)
    then show ?thesis using assms PDict
      by (cases v) (auto simp: extract_timings_def load_har_def key_in_dict has_log_entries_def)
  qed
qed (use assms in \<open>auto simp: extract_timings_def load_har_def\<close>)

lemma missing_keys:
  assumes "open_json e (har_file_path self) = Parsed (PDict har)"
    and "map_of har (KStr ''log'') = None \<or>
         (\<exists>lg. map_of har (KStr ''log'') = Some (PDict lg) \<and> map_of lg (KStr ''entries'') = None)"
  shows "extract_timings e self = SysExit [''Error: Invalid HAR file format''] 1"
  using assms by (auto simp: extract_timings_def load_har_def key_in_dict)

text \<open>
  C8, amended: the process ends with exit code 1 and its own message, and gives no
  result, when the file path argument is missing (the usage text), when the file does not
  exist, when its content is not valid JSON, and when the parsed document is an object
  that has no \<^verbatim>\<open>log\<close> key or whose \<^verbatim>\<open>log\<close> is an object that has no
  \<^verbatim>\<open>entries\<close> key. Every other document that lacks a \<^verbatim>\<open>log\<close> object with an
  \<^verbatim>\<open>entries\<close> key also ends the process with exit code 1 and no result, with that last
  message or with a \<^verbatim>\<open>TypeError\<close> that nothing catches. The messages of the missing file
  and of the invalid JSON differ, and loading returns the whole parsed document or nothing.
\<close>

theorem C8_fatal_errors:
  "(length argv < 2 \<longrightarrow> main e argv = SysExit usage 1) \<and>
   (2 \<le> length argv \<and> open_json e (path_str e (argv ! 1)) = NotFound \<longrightarrow>
      main e argv =
        SysExit [''Error: File '' @ [CHR 0x27] @ path_str e (argv ! 1) @ [CHR 0x27] @ '' not found.''] 1) \<and>
   (2 \<le> length argv \<and> open_json e (path_str e (argv ! 1)) = Malformed msg \<longrightarrow>
      main e argv = SysExit [''Error: Invalid JSON in HAR file: '' @ msg] 1) \<and>
   (2 \<le> length argv \<and> open_json e (path_str e (argv ! 1)) = Parsed (PDict har) \<and>
    (map_of har (KStr ''log'') = None \<or>
     (\<exists>lg. map_of har (KStr ''log'') = Some (PDict lg) \<and> map_of lg (KStr ''entries'') = None)) \<longrightarrow>
      main e argv = SysExit [''Error: Invalid HAR file format''] 1) \<and>
   (2 \<le> length argv \<and> open_json e (path_str e (argv ! 1)) = Parsed doc \<and> \<not> has_log_entries doc \<longrightarrow>
      exit_code (main e argv) = Some 1 \<and> (\<forall>res. main e argv \<noteq> Return res)) \<and>
   ''Error: File '' @ [CHR 0x27] @ p @ [CHR 0x27] @ '' not found.'' \<noteq>
     ''Error: Invalid JSON in HAR file: '' @ msg' \<and>
   (\<forall>d. load_har e self = Return d \<longleftrightarrow> open_json e (har_file_path self) = Parsed d)"
proof (intro conjI impI allI)
  show "main e argv = SysExit usage 1" if "length argv < 2"
    using that by (simp add: main_def)
next
  assume a: "2 \<le> length argv \<and> open_json e (path_str e (argv ! 1)) = NotFound"
  then have "extract_timings e (init e (argv ! 1)) =
      SysExit [''Error: File '' @ [CHR 0x27] @ path_str e (argv ! 1) @ [CHR 0x27] @ '' not found.''] 1"
    by (simp add: extract_timings_def load_har_def init_def)
  then show "main e argv =
      SysExit [''Error: File '' @ [CHR 0x27] @ path_str e (argv ! 1) @ [CHR 0x27] @ '' not found.''] 1"
    using a by (intro main_exit) simp_all
next
  assume a: "2 \<le> length argv \<and> open_json e (path_str e (argv ! 1)) = Malformed msg"
  then have "extract_timings e (init e (argv ! 1)) =
      SysExit [''Error: Invalid JSON in HAR file: '' @ msg] 1"
    by (simp add: extract_timings_def load_har_def init_def)
  then show "main e argv = SysExit [''Error: Invalid JSON in HAR file: '' @ msg] 1"
    using a by (intro main_exit) simp_all
next
  assume a: "2 \<le> length argv \<and> open_json e (path_str e (argv ! 1)) = Parsed (PDict har) \<and>
    (map_of har (KStr ''log'') = None \<or>
     (\<exists>lg. map_of har (KStr ''log'') = Some (PDict lg) \<and> map_of lg (KStr ''entries'') = None))"
  then have "extract_timings e (init e (argv ! 1)) = SysExit [''Error: Invalid HAR file format''] 1"
    using missing_keys[of e "init e (argv ! 1)" har] by (simp add: init_def)
  then show "main e argv = SysExit [''Error: Invalid HAR file format''] 1"
    using a by (intro main_exit) simp_all
next
  assume a: "2 \<le> length argv \<and> open_json e (path_str e (argv ! 1)) = Parsed doc \<and> \<not> has_log_entries doc"
  then have "extract_timings e (init e (argv ! 1)) = SysExit [''Error: Invalid HAR file format''] 1 \<or>
      extract_timings e (init e (argv ! 1)) = Raise TypeError"
    using invalid_structure[of e "init e (argv ! 1)" doc] by (simp add: init_def)
  then have m: "main e argv = SysExit [''Error: Invalid HAR file format''] 1 \<or> main e argv = Raise TypeError"
    using a main_exit[of argv e] main_raise[of argv e] by blast
  then show "exit_code (main e argv) = Some 1" by auto
  show "main e argv \<noteq> Return res" for res using m by auto
next
  show "''Error: File '' @ [CHR 0x27] @ p @ [CHR 0x27] @ '' not found.'' \<noteq>
     ''Error: Invalid JSON in HAR file: '' @ msg'"
    by simp
next
  show "load_har e self = Return d \<longleftrightarrow> open_json e (har_file_path self) = Parsed d" for d
    by (cases "open_json e (har_file_path self)") (auto simp: load_har_def)
qed

theorem C8_fatal_errors_witness:
  "main env_missing [''har_analyzer.py''] = SysExit usage 1 \<and>
   main env_missing [''har_analyzer.py'', ''x.har''] =
     SysExit [''Error: File '' @ [CHR 0x27] @ ''x.har'' @ [CHR 0x27] @ '' not found.''] 1 \<and>
   main env_malformed [''har_analyzer.py'', ''x.har''] =
     SysExit [''Error: Invalid JSON in HAR file: Expecting value: line 1 column 1 (char 0)''] 1 \<and>
   main (env_with doc_no_entries) [''har_analyzer.py'', ''x.har''] =
     SysExit [''Error: Invalid HAR file format''] 1 \<and>
   exit_code (main (env_with doc_null_log) [''har_analyzer.py'', ''x.har'']) = Some 1"
proof -
  have c1: "main env_missing [''har_analyzer.py''] = SysExit usage 1"
    using C8_fatal_errors[of "[''har_analyzer.py'']" env_missing] by simp
  have c2: "main env_missing [''har_analyzer.py'', ''x.har''] =
     SysExit [''Error: File '' @ [CHR 0x27] @ ''x.har'' @ [CHR 0x27] @ '' not found.''] 1"
    using C8_fatal_errors[of "[''har_analyzer.py'', ''x.har'']" env_missing] by (simp add: env_missing_def)
  have c3: "main env_malformed [''har_analyzer.py'', ''x.har''] =
     SysExit [''Error: Invalid JSON in HAR file: Expecting value: line 1 column 1 (char 0)''] 1"
    using C8_fatal_errors[of "[''har_analyzer.py'', ''x.har'']" env_malformed
        "''Expecting value: line 1 column 1 (char 0)''"]
    by (simp add: env_malformed_def)
  have c4: "main (env_with doc_no_entries) [''har_analyzer.py'', ''x.har''] =
     SysExit [''Error: Invalid HAR file format''] 1"
    using C8_fatal_errors[of "[''har_analyzer.py'', ''x.har'']" "env_with doc_no_entries" _
        "[(KStr ''log'', PDict [(KStr ''version'', PStr ''1.2'')])]"]
    by (simp add: env_with_def doc_no_entries_def)
  have c5: "exit_code (main (env_with doc_null_log) [''har_analyzer.py'', ''x.har'']) = Some 1"
    using C8_fatal_errors[of "[''har_analyzer.py'', ''x.har'']" "env_with doc_null_log" _ _ doc_null_log]
    by (simp add: env_with_def doc_null_log_def has_log_entries_def)
  show ?thesis using c1 c2 c3 c4 c5 by simp
qed

text \<open>
  A document whose \<^verbatim>\<open>log\<close> is \<^verbatim>\<open>null\<close> lacks a \<^verbatim>\<open>log\<close> object; the test
  \<^verbatim>\<open>'entries' not in har_data['log']\<close> raises \<^verbatim>\<open>TypeError\<close> and the process ends with
  a traceback instead of the message for an invalid file.
\<close>

theorem C8_null_log_counterexample:
  "\<not> has_log_entries doc_null_log \<and>
   main (env_with doc_null_log) [''har_analyzer.py'', ''x.har''] = Raise TypeError"
  by (simp add: has_log_entries_def main_def init_def env_with_def doc_null_log_def
      extract_timings_def load_har_def)

section \<open>The export document read back\<close>




















end
